theory Spec2Isabelle
  imports
    Main
    "HOL-Library.FSet"
    "HOL-Library.Char_ord"
    "HOL-Library.List_Lexorder"
    "HOL-Library.Sublist"
begin

section \<open>The delta discovery push engine of krtxds/xds.go\<close>

text \<open>
  The development embeds the request handling, the diff generator and the merge of
  push requests of \<^verbatim>\<open>internal/kgateway/agentgatewaysyncer/krtxds/xds.go\<close>.
  Strings are byte lists, ordered bytewise and lexicographically as Go orders them
  (\<open>Char_ord\<close>, \<open>List_Lexorder\<close>). A Go \<^verbatim>\<open>sets.String\<close> is a finite set of strings;
  a nil set reads as the empty set in every operation the code applies to it, so both
  are the value \<open>{||}\<close>. A Go slice that the code tests against nil is a
  \<open>'a list option\<close>, with \<open>None\<close> for nil.
\<close>

subsection \<open>Data\<close>

text \<open>\<^verbatim>\<open>types.NamespacedName\<close> and its \<^verbatim>\<open>String()\<close>: namespace, a slash, name.\<close>

datatype NamespacedName = NamespacedName (Namespace: string) (NsName: string)

definition NamespacedName_String :: "NamespacedName \<Rightarrow> string" where
  "NamespacedName_String n = Namespace n @ ''/'' @ NsName n"

text \<open>\<^verbatim>\<open>discovery.Resource\<close>: the name and the serialized payload.\<close>

record discovery_Resource =
  Name :: string
  Any :: string

record DiscoveryResource =
  Resource :: discovery_Resource
  ForGateway :: "NamespacedName option"

definition ResourceName :: "DiscoveryResource \<Rightarrow> string" where
  "ResourceName d =
     (case ForGateway d of
        Some g \<Rightarrow> NamespacedName_String g @ ''/'' @ Name (Resource d)
      | None \<Rightarrow> Name (Resource d))"

text \<open>
  A \<^verbatim>\<open>krt.Collection[DiscoveryResource]\<close> holds its objects under the key that
  \<^verbatim>\<open>ResourceName()\<close> gives them. The model is the list that \<^verbatim>\<open>List()\<close>
  returns; \<^verbatim>\<open>GetKey\<close> is the lookup by that key.
\<close>

type_synonym Collection = "DiscoveryResource list"

definition Col_List :: "Collection \<Rightarrow> DiscoveryResource list" where
  "Col_List c = c"

definition Col_GetKey :: "Collection \<Rightarrow> string \<Rightarrow> DiscoveryResource option" where
  "Col_GetKey c k = find (\<lambda>d. ResourceName d = k) c"

record CollectionGenerator =
  PerGateway :: bool
  Col :: Collection

text \<open>\<^verbatim>\<open>model.WatchedResource\<close>, with the fields the code reads or writes.\<close>

record WatchedResource =
  TypeUrl :: string
  ResourceNames :: "string fset"
  Wildcard :: bool
  NonceSent :: string
  NonceAcked :: string
  AlwaysRespond :: bool
  LastSendTime :: nat
  LastError :: string

record Proxy =
  ID :: string
  WatchedResources :: "string \<rightharpoonup> WatchedResource"

record Status =
  Code :: nat
  Message :: string

record DeltaDiscoveryRequest =
  ReqTypeUrl :: string
  ResourceNamesSubscribe :: "string list"
  ResourceNamesUnsubscribe :: "string list"
  InitialResourceVersions :: "(string \<times> string) list"
  ResponseNonce :: string
  ErrorDetail :: "Status option"

record DeltaDiscoveryResponse =
  RespTypeUrl :: string
  SystemVersionInfo :: string
  Nonce :: string
  Resources :: "discovery_Resource list option"
  RemovedResources :: "string list option"

text \<open>
  \<^verbatim>\<open>PushRequest\<close>. \<open>ConfigsUpdated\<close> is a Go map from type URL to a set of
  names; the map itself may be nil (\<open>None\<close>). \<open>Delta\<close> is the pair of its
  \<^verbatim>\<open>Subscribed\<close> and \<^verbatim>\<open>Unsubscribed\<close> sets.
\<close>

record PushRequest =
  ConfigsUpdated :: "(string \<rightharpoonup> string fset) option"
  IsFromRequest :: bool
  PushVersion :: string
  Delta :: "string fset \<times> string fset"

text \<open>An error value, identified by the gRPC code \<^verbatim>\<open>status.Convert\<close> reads from it.\<close>

datatype error = DeadlineExceeded | Unavailable | Canceled | Unknown

text \<open>A Go panic.\<close>

datatype panic = NilPointerDereference | UnsafeAssertion

text \<open>
  What the code takes from outside this file: the constants \<^verbatim>\<open>v3.AddressType\<close>,
  \<^verbatim>\<open>v3.DebugType\<close> and \<^verbatim>\<open>features.EnableUnsafeAssertions\<close> of the Istio
  packages, the outcome of \<^verbatim>\<open>deltaStream.Send\<close> on a response (\<open>None\<close> for a nil
  error), the clock, the fresh UUID of \<^verbatim>\<open>nonce\<close>, and the order in which a
  \<^verbatim>\<open>range\<close> loop visits the names of a set.
\<close>

record Env =
  AddressType :: string
  DebugType :: string
  EnableUnsafeAssertions :: bool
  Send :: "DeltaDiscoveryResponse \<Rightarrow> error option"
  Now :: nat
  NewUUID :: string
  RangeOrder :: "string fset \<Rightarrow> string list"

text \<open>
  A connection: its proxy, the gateway that \<^verbatim>\<open>kgwxds.AgentgatewayID(con.node)\<close>
  reads from the node, the responses its stream has delivered, and the count of write
  timeouts recorded for it.
\<close>

record Connection =
  proxy :: Proxy
  node :: NamespacedName
  sent :: "DeltaDiscoveryResponse list"
  ResponseWriteTimeouts :: nat

record DiscoveryServer =
  Collections :: "string \<rightharpoonup> CollectionGenerator"

subsection \<open>Slices\<close>

definition elems :: "'a list option \<Rightarrow> 'a list" where
  "elems s = (case s of None \<Rightarrow> [] | Some xs \<Rightarrow> xs)"

definition len :: "'a list option \<Rightarrow> nat" where
  "len s = length (elems s)"

definition append_slice :: "'a list option \<Rightarrow> 'a \<Rightarrow> 'a list option" where
  "append_slice s x = Some (elems s @ [x])"

subsection \<open>The diff generator\<close>

text \<open>The function given to \<^verbatim>\<open>slices.MapFilter\<close> in the full mode (lines 1073-1078).\<close>

definition full_keep :: "NamespacedName \<Rightarrow> DiscoveryResource \<Rightarrow> discovery_Resource option" where
  "full_keep gw e =
     (case ForGateway e of
        Some g \<Rightarrow> if g \<noteq> gw then None else Some (Resource e)
      | None \<Rightarrow> Some (Resource e))"

text \<open>The loop of lines 1080-1082 over the resources kept.\<close>

fun delete_names :: "discovery_Resource list \<Rightarrow> string fset \<Rightarrow> string fset" where
  "delete_names [] toDeleted = toDeleted"
| "delete_names (r # rs) toDeleted = delete_names rs (toDeleted |-| {|Name r|})"

text \<open>
  One round of the loop of lines 1089-1099: the lookup under the key
  \<^verbatim>\<open>gw.String() + "/" + k\<close>, the scope test, and the append to one of the two slices.
\<close>

definition lookup_scoped :: "Collection \<Rightarrow> NamespacedName \<Rightarrow> string \<Rightarrow> DiscoveryResource option" where
  "lookup_scoped c gw k =
     (case Col_GetKey c (NamespacedName_String gw @ ''/'' @ k) of
        None \<Rightarrow> None
      | Some v \<Rightarrow>
          (case ForGateway v of
             Some g \<Rightarrow> if g \<noteq> gw then None else Some v
           | None \<Rightarrow> Some v))"

fun incremental_loop ::
  "Collection \<Rightarrow> NamespacedName \<Rightarrow> string list \<Rightarrow>
   discovery_Resource list option \<times> string list option \<Rightarrow>
   discovery_Resource list option \<times> string list option" where
  "incremental_loop c gw [] (res, deletes) = (res, deletes)"
| "incremental_loop c gw (k # ks) (res, deletes) =
     (case lookup_scoped c gw k of
        None \<Rightarrow> incremental_loop c gw ks (res, append_slice deletes k)
      | Some v \<Rightarrow> incremental_loop c gw ks (append_slice res (Resource v), deletes))"

text \<open>\<^verbatim>\<open>req.ConfigsUpdated[TypeUrl(w.TypeUrl)]\<close>: a missing key reads as the nil set.\<close>

definition changed_names :: "PushRequest \<Rightarrow> string \<Rightarrow> string fset" where
  "changed_names req t =
     (case ConfigsUpdated req of
        None \<Rightarrow> {||}
      | Some m \<Rightarrow> (case m t of None \<Rightarrow> {||} | Some s \<Rightarrow> s))"

text \<open>
  Lines 1068-1100 of \<^verbatim>\<open>GenerateDeltas\<close>: the two slices before the test for the
  empty diff. \<^verbatim>\<open>MapFilter\<close> and \<^verbatim>\<open>SortedList\<close> return slices that are not nil.
\<close>

definition computed_deltas ::
  "Env \<Rightarrow> CollectionGenerator \<Rightarrow> PushRequest \<Rightarrow> WatchedResource \<Rightarrow> NamespacedName \<Rightarrow>
   discovery_Resource list option \<times> string list option" where
  "computed_deltas env e req w gw =
     (if IsFromRequest req then
        (let res = List.map_filter (full_keep gw) (Col_List (Col e));
             toDeleted = delete_names res (ResourceNames w)
         in (Some res, Some (sorted_list_of_fset toDeleted)))
      else
        incremental_loop (Col e) gw (RangeOrder env (changed_names req (TypeUrl w)))
          (Some [], None))"

text \<open>
  \<^verbatim>\<open>GenerateDeltas\<close>: the added resources, the removed names and the error, which is
  always nil. Two nil slices are the signal for the empty diff.
\<close>

definition GenerateDeltas ::
  "Env \<Rightarrow> CollectionGenerator \<Rightarrow> PushRequest \<Rightarrow> WatchedResource \<Rightarrow> NamespacedName \<Rightarrow>
   discovery_Resource list option \<times> string list option \<times> error option" where
  "GenerateDeltas env e req w gw =
     (case computed_deltas env e req w gw of
        (res, deletes) \<Rightarrow>
          if len res = 0 \<and> len deletes = 0 then (None, None, None)
          else (res, deletes, None))"

subsection \<open>Watched resources of a proxy\<close>

text \<open>
  \<^verbatim>\<open>UpdateWatchedResource\<close>. The function it is given may dereference the pointer it
  receives, which panics on nil, and may assign to variables of the caller: it returns
  the new pointer together with the values it assigned.
\<close>

definition UpdateWatchedResource ::
  "Proxy \<Rightarrow> string \<Rightarrow> (WatchedResource option \<Rightarrow> panic + WatchedResource option \<times> 'c) \<Rightarrow>
   panic + Proxy \<times> 'c" where
  "UpdateWatchedResource nd typeURL updateFn =
     (case updateFn (WatchedResources nd typeURL) of
        Inl p \<Rightarrow> Inl p
      | Inr (None, c) \<Rightarrow> Inr (nd\<lparr>WatchedResources := (WatchedResources nd)(typeURL := None)\<rparr>, c)
      | Inr (Some r, c) \<Rightarrow> Inr (nd\<lparr>WatchedResources := (WatchedResources nd)(typeURL \<mapsto> r)\<rparr>, c))"

definition GetWatchedResource :: "Proxy \<Rightarrow> string \<Rightarrow> WatchedResource option" where
  "GetWatchedResource nd typeURL = WatchedResources nd typeURL"

text \<open>A composite literal of \<^verbatim>\<open>model.WatchedResource\<close>: the fields not given are zero.\<close>

definition new_WatchedResource :: "string \<Rightarrow> string fset \<Rightarrow> bool \<Rightarrow> WatchedResource" where
  "new_WatchedResource t names wildcard =
     \<lparr>TypeUrl = t, ResourceNames = names, Wildcard = wildcard, NonceSent = [],
      NonceAcked = [], AlwaysRespond = False, LastSendTime = 0, LastError = []\<rparr>"

subsection \<open>Subscriptions of a request\<close>

text \<open>
  The loops of \<^verbatim>\<open>deltaWatchedResources\<close>: \<^verbatim>\<open>InsertContains\<close> inserts and tells
  whether the name was there, \<^verbatim>\<open>DeleteContains\<close> deletes and tells the same.
\<close>

fun insert_names :: "string list \<Rightarrow> string fset \<times> bool \<Rightarrow> string fset \<times> bool" where
  "insert_names [] (res, changed) = (res, changed)"
| "insert_names (r # rs) (res, changed) =
     insert_names rs (finsert r res, if r |\<in>| res then changed else True)"

fun remove_names :: "string list \<Rightarrow> string fset \<times> bool \<Rightarrow> string fset \<times> bool" where
  "remove_names [] (res, changed) = (res, changed)"
| "remove_names (r # rs) (res, changed) =
     remove_names rs (res |-| {|r|}, if r |\<in>| res then True else changed)"

text \<open>
  \<^verbatim>\<open>deltaWatchedResources\<close> returns the names, the wildcard flag and the change flag.
  \<open>InitialResourceVersions\<close> is a Go map: the list holds its entries in the order the
  loop visits them.
\<close>

definition deltaWatchedResources ::
  "string fset \<Rightarrow> DeltaDiscoveryRequest \<Rightarrow> string fset \<times> bool \<times> bool" where
  "deltaWatchedResources existing request =
     (case remove_names (ResourceNamesUnsubscribe request)
             (insert_names (map fst (InitialResourceVersions request))
               (insert_names (ResourceNamesSubscribe request) (existing, False))) of
        (res, changed) \<Rightarrow>
          (let wildcard = (''*'' |\<in>| res);
               res' = (if wildcard then res |-| {|''*''|} else res)
           in (res', if ResourceNamesSubscribe request = [] then True else wildcard, changed)))"

subsection \<open>The decision to respond\<close>

text \<open>The function that records the error of a request (lines 493-496).\<close>

definition record_error ::
  "Status \<Rightarrow> WatchedResource option \<Rightarrow> panic + WatchedResource option \<times> unit" where
  "record_error detail wr =
     (case wr of
        None \<Rightarrow> Inl NilPointerDereference
      | Some w \<Rightarrow> Inr (Some (w\<lparr>LastError := Message detail\<rparr>), ()))"

text \<open>
  The function that applies the names of a request and records the ack (lines 553-564).
  It assigns \<open>alwaysRespond\<close> and \<open>subChanged\<close>, returned in this order.
\<close>

definition record_ack ::
  "DeltaDiscoveryRequest \<Rightarrow> bool \<Rightarrow> WatchedResource option \<Rightarrow>
   panic + WatchedResource option \<times> bool \<times> bool" where
  "record_ack request spontaneousReq wr =
     (case wr of
        None \<Rightarrow> Inl NilPointerDereference
      | Some w \<Rightarrow>
          (case deltaWatchedResources (ResourceNames w) request of
             (names, _, subChanged) \<Rightarrow>
               (let w1 = w\<lparr>ResourceNames := names\<rparr>;
                    w2 = (if spontaneousReq then w1
                          else w1\<lparr>LastError := [], NonceAcked := ResponseNonce request\<rparr>)
                in Inr (Some (w2\<lparr>AlwaysRespond := False\<rparr>), AlwaysRespond w2, subChanged))))"

definition shouldRespondDelta ::
  "Env \<Rightarrow> Connection \<Rightarrow> DeltaDiscoveryRequest \<Rightarrow> panic + bool \<times> Connection" where
  "shouldRespondDelta env con request =
     (case ErrorDetail request of
        Some detail \<Rightarrow>
          (case UpdateWatchedResource (proxy con) (ReqTypeUrl request) (record_error detail) of
             Inl p \<Rightarrow> Inl p
           | Inr (nd, _) \<Rightarrow> Inr (False, con\<lparr>proxy := nd\<rparr>))
      | None \<Rightarrow>
          (case GetWatchedResource (proxy con) (ReqTypeUrl request) of
             None \<Rightarrow>
               (case deltaWatchedResources {||} request of
                  (res, wildcard, _) \<Rightarrow>
                    (let skip = (ReqTypeUrl request = AddressType env \<and> wildcard);
                         res' = (if skip then {||} else res);
                         wr = new_WatchedResource (ReqTypeUrl request) res' wildcard
                     in Inr (True, con\<lparr>proxy := (proxy con)\<lparr>WatchedResources :=
                               (WatchedResources (proxy con))(ReqTypeUrl request \<mapsto> wr)\<rparr>\<rparr>)))
           | Some previousInfo \<Rightarrow>
               if ResponseNonce request \<noteq> [] \<and> ResponseNonce request \<noteq> NonceSent previousInfo
               then Inr (False, con)
               else
                 (let spontaneousReq = (ResponseNonce request = []) in
                  case UpdateWatchedResource (proxy con) (ReqTypeUrl request)
                         (record_ack request spontaneousReq) of
                    Inl p \<Rightarrow> Inl p
                  | Inr (nd, alwaysRespond, subChanged) \<Rightarrow>
                      if ((spontaneousReq \<and> \<not> subChanged) \<or> (\<not> spontaneousReq \<and> subChanged))
                         \<and> EnableUnsafeAssertions env
                      then Inl UnsafeAssertion
                      else if subChanged then Inr (True, con\<lparr>proxy := nd\<rparr>)
                      else if alwaysRespond then Inr (True, con\<lparr>proxy := nd\<rparr>)
                      else Inr (False, con\<lparr>proxy := nd\<rparr>))))"

subsection \<open>Sending a response\<close>

text \<open>The function of \<^verbatim>\<open>sendDelta\<close> that records the nonce sent (lines 434-441).\<close>

definition record_sent ::
  "Env \<Rightarrow> DeltaDiscoveryResponse \<Rightarrow> WatchedResource option \<Rightarrow>
   panic + WatchedResource option \<times> unit" where
  "record_sent env res wr =
     (let w = (case wr of None \<Rightarrow> new_WatchedResource (RespTypeUrl res) {||} False | Some w \<Rightarrow> w)
      in Inr (Some (w\<lparr>NonceSent := Nonce res, LastSendTime := Now env\<rparr>), ()))"

text \<open>
  \<^verbatim>\<open>sendDelta\<close>: a response that the stream accepts is delivered, and recorded unless
  its type is a debug type; a write that runs into its deadline is counted.
\<close>

definition sendDelta ::
  "Env \<Rightarrow> Connection \<Rightarrow> DeltaDiscoveryResponse \<Rightarrow> panic + error option \<times> Connection" where
  "sendDelta env conn res =
     (case Send env res of
        None \<Rightarrow>
          (let conn1 = conn\<lparr>sent := sent conn @ [res]\<rparr> in
           if prefix (DebugType env) (RespTypeUrl res) then Inr (None, conn1)
           else
             (case UpdateWatchedResource (proxy conn1) (RespTypeUrl res) (record_sent env res) of
                Inl p \<Rightarrow> Inl p
              | Inr (nd, _) \<Rightarrow> Inr (None, conn1\<lparr>proxy := nd\<rparr>)))
      | Some err \<Rightarrow>
          if err = DeadlineExceeded
          then Inr (Some err, conn\<lparr>ResponseWriteTimeouts := ResponseWriteTimeouts conn + 1\<rparr>)
          else Inr (Some err, conn))"

definition nonce :: "Env \<Rightarrow> string \<Rightarrow> string" where
  "nonce env noncePrefix = noncePrefix @ NewUUID env"

definition findGenerator :: "DiscoveryServer \<Rightarrow> string \<Rightarrow> CollectionGenerator option" where
  "findGenerator s url = Collections s url"

definition pushDeltaXds ::
  "Env \<Rightarrow> DiscoveryServer \<Rightarrow> Connection \<Rightarrow> WatchedResource option \<Rightarrow> PushRequest \<Rightarrow>
   panic + error option \<times> Connection" where
  "pushDeltaXds env s con w req =
     (case w of
        None \<Rightarrow> Inr (None, con)
      | Some w \<Rightarrow>
          (case findGenerator s (TypeUrl w) of
             None \<Rightarrow> Inr (None, con)
           | Some gen \<Rightarrow>
               (case GenerateDeltas env gen req w (node con) of
                  (res, deletedRes, err) \<Rightarrow>
                    (case err of
                       Some e \<Rightarrow> Inr (Some e, con)
                     | None \<Rightarrow>
                         if res = None \<and> deletedRes = None then Inr (None, con)
                         else sendDelta env con
                                \<lparr>RespTypeUrl = TypeUrl w,
                                 SystemVersionInfo = PushVersion req,
                                 Nonce = nonce env (PushVersion req),
                                 Resources = res,
                                 RemovedResources = deletedRes\<rparr>))))"

definition processDeltaRequest ::
  "Env \<Rightarrow> DiscoveryServer \<Rightarrow> Connection \<Rightarrow> DeltaDiscoveryRequest \<Rightarrow>
   panic + error option \<times> Connection" where
  "processDeltaRequest env s con req =
     (case shouldRespondDelta env con req of
        Inl p \<Rightarrow> Inl p
      | Inr (shouldRespond, con') \<Rightarrow>
          if shouldRespond then
            (case deltaWatchedResources {||} req of
               (subs, _, _) \<Rightarrow>
                 pushDeltaXds env s con' (GetWatchedResource (proxy con') (ReqTypeUrl req))
                   \<lparr>ConfigsUpdated = None, IsFromRequest = True, PushVersion = [],
                    Delta = (subs, fset_of_list (ResourceNamesUnsubscribe req) |-| {|''*''|})\<rparr>)
          else Inr (None, con'))"

subsection \<open>Merging push requests\<close>

text \<open>
  The loop of \<^verbatim>\<open>Merge\<close> over the entries of the other map (lines 1158-1164) visits
  every key once and writes that key only, so its result is given key by key.
\<close>

definition merge_configs ::
  "(string \<rightharpoonup> string fset) \<Rightarrow> (string \<rightharpoonup> string fset) \<Rightarrow> (string \<rightharpoonup> string fset)" where
  "merge_configs m other =
     (\<lambda>k. case other k of
             None \<Rightarrow> m k
           | Some v \<Rightarrow> (case m k of Some e \<Rightarrow> Some (e |\<union>| v) | None \<Rightarrow> Some v))"

definition Merge :: "PushRequest option \<Rightarrow> PushRequest option \<Rightarrow> PushRequest option" where
  "Merge pr other =
     (case pr of
        None \<Rightarrow> other
      | Some p \<Rightarrow>
          (case other of
             None \<Rightarrow> Some p
           | Some ot \<Rightarrow>
               (case ConfigsUpdated p of
                  None \<Rightarrow> Some (p\<lparr>ConfigsUpdated := ConfigsUpdated ot\<rparr>)
                | Some m \<Rightarrow>
                    (case ConfigsUpdated ot of
                       None \<Rightarrow> Some p
                     | Some om \<Rightarrow> Some (p\<lparr>ConfigsUpdated := Some (merge_configs m om)\<rparr>)))))"

text \<open>
  The two loops of \<^verbatim>\<open>CopyMerge\<close> (lines 1187-1192) store the entries of the first
  map, then the entries of the second under their keys. A nil map has no entries.
\<close>

definition copy_configs ::
  "(string \<rightharpoonup> string fset) option \<Rightarrow> (string \<rightharpoonup> string fset) \<Rightarrow> (string \<rightharpoonup> string fset)" where
  "copy_configs src merged =
     (case src of
        None \<Rightarrow> merged
      | Some m \<Rightarrow> (\<lambda>k. case m k of Some v \<Rightarrow> Some v | None \<Rightarrow> merged k))"

definition CopyMerge :: "PushRequest option \<Rightarrow> PushRequest option \<Rightarrow> PushRequest option" where
  "CopyMerge pr other =
     (case pr of
        None \<Rightarrow> other
      | Some p \<Rightarrow>
          (case other of
             None \<Rightarrow> Some p
           | Some ot \<Rightarrow>
               Some \<lparr>ConfigsUpdated =
                       (if ConfigsUpdated p = None \<and> ConfigsUpdated ot = None then None
                        else Some (copy_configs (ConfigsUpdated ot)
                                     (copy_configs (ConfigsUpdated p) Map.empty))),
                     IsFromRequest = False, PushVersion = [], Delta = ({||}, {||})\<rparr>))"

text \<open>The changed names of a request that may be nil.\<close>

definition changed_names_of :: "PushRequest option \<Rightarrow> string \<Rightarrow> string fset" where
  "changed_names_of pr t = (case pr of None \<Rightarrow> {||} | Some p \<Rightarrow> changed_names p t)"

subsection \<open>Concrete inputs\<close>

text \<open>
  Two gateways, an environment whose stream accepts every response, one whose stream
  runs into its deadline, and a session of gateway \<open>gw0\<close> before and after its first
  response for the type \<open>T0\<close>.
\<close>

definition gw0 :: NamespacedName where
  "gw0 = NamespacedName ''default'' ''gw''"

definition gw1 :: NamespacedName where
  "gw1 = NamespacedName ''default'' ''other''"

definition T0 :: string where
  "T0 = ''type.googleapis.com/agentgateway.dev.resource.Resource''"

definition T1 :: string where
  "T1 = ''type.googleapis.com/agentgateway.dev.workload.Address''"

definition env0 :: Env where
  "env0 = \<lparr>AddressType = ''type.googleapis.com/istio.workload.Address'',
           DebugType = ''istio.io/debug'',
           EnableUnsafeAssertions = False,
           Send = (\<lambda>_. None),
           Now = 7,
           NewUUID = ''u1'',
           RangeOrder = sorted_list_of_fset\<rparr>"

definition env_timeout :: Env where
  "env_timeout = env0\<lparr>Send := (\<lambda>_. Some DeadlineExceeded)\<rparr>"

definition res_a :: DiscoveryResource where
  "res_a = \<lparr>Resource = \<lparr>Name = ''a'', Any = ''A''\<rparr>, ForGateway = None\<rparr>"

definition res_b :: DiscoveryResource where
  "res_b = \<lparr>Resource = \<lparr>Name = ''b'', Any = ''B''\<rparr>, ForGateway = Some gw0\<rparr>"

definition res_c :: DiscoveryResource where
  "res_c = \<lparr>Resource = \<lparr>Name = ''c'', Any = ''C''\<rparr>, ForGateway = Some gw1\<rparr>"

text \<open>A collection registered by \<^verbatim>\<open>Collection\<close>, and one holding all three resources.\<close>

definition gen_global :: CollectionGenerator where
  "gen_global = \<lparr>PerGateway = False, Col = [res_a]\<rparr>"

definition gen_mixed :: CollectionGenerator where
  "gen_mixed = \<lparr>PerGateway = True, Col = [res_a, res_b, res_c]\<rparr>"

definition server0 :: DiscoveryServer where
  "server0 = \<lparr>Collections = [T0 \<mapsto> gen_mixed]\<rparr>"

definition wr0 :: WatchedResource where
  "wr0 = (new_WatchedResource T0 {|''b'', ''z''|} False)\<lparr>NonceSent := ''n1''\<rparr>"

definition con0 :: Connection where
  "con0 = \<lparr>proxy = \<lparr>ID = ''proxy-1'', WatchedResources = Map.empty\<rparr>, node = gw0,
            sent = [], ResponseWriteTimeouts = 0\<rparr>"

definition con1 :: Connection where
  "con1 = con0\<lparr>proxy := \<lparr>ID = ''proxy-1'', WatchedResources = [T0 \<mapsto> wr0]\<rparr>\<rparr>"


text \<open>A session that watches a debug type.\<close>

definition con_debug :: Connection where
  "con_debug = con0\<lparr>proxy := \<lparr>ID = ''proxy-1'',
      WatchedResources = [''istio.io/debug/syncz'' \<mapsto> wr0\<lparr>TypeUrl := ''istio.io/debug/syncz''\<rparr>]\<rparr>\<rparr>"

definition request :: "string \<Rightarrow> string list \<Rightarrow> string list \<Rightarrow> DeltaDiscoveryRequest" where
  "request n subs unsubs =
     \<lparr>ReqTypeUrl = T0, ResourceNamesSubscribe = subs, ResourceNamesUnsubscribe = unsubs,
      InitialResourceVersions = [], ResponseNonce = n, ErrorDetail = None\<rparr>"

definition req_nack :: DeltaDiscoveryRequest where
  "req_nack = (request ''n1'' [] [])\<lparr>ErrorDetail := Some \<lparr>Code = 3, Message = ''rejected''\<rparr>\<rparr>"

definition push :: "(string \<rightharpoonup> string fset) \<Rightarrow> PushRequest" where
  "push m = \<lparr>ConfigsUpdated = Some m, IsFromRequest = False, PushVersion = ''v1'',
             Delta = ({||}, {||})\<rparr>"

definition req_full :: PushRequest where
  "req_full = \<lparr>ConfigsUpdated = None, IsFromRequest = True, PushVersion = [],
               Delta = ({||}, {||})\<rparr>"

definition response :: "string \<Rightarrow> string \<Rightarrow> DeltaDiscoveryResponse" where
  "response t n =
     \<lparr>RespTypeUrl = t, SystemVersionInfo = ''v1'', Nonce = n,
      Resources = Some [Resource res_a], RemovedResources = None\<rparr>"

section \<open>Properties\<close>

lemma delete_names_eq:
  "delete_names rs T = T |-| fset_of_list (map Name rs)"
  by (induction rs arbitrary: T) auto

lemma map_filter_full_keep:
  "List.map_filter (full_keep gw) c =
   map Resource (filter (\<lambda>d. ForGateway d = None \<or> ForGateway d = Some gw) c)"
  by (induction c) (auto simp: List.map_filter_simps full_keep_def split: option.splits)


lemma computed_deltas_full:
  "IsFromRequest req \<Longrightarrow>
   computed_deltas env e req w gw =
     (Some (map Resource (filter (\<lambda>d. ForGateway d = None \<or> ForGateway d = Some gw) (Col e))),
      Some (sorted_list_of_fset (ResourceNames w |-| fset_of_list (map Name
        (map Resource (filter (\<lambda>d. ForGateway d = None \<or> ForGateway d = Some gw) (Col e)))))))"
  by (simp add: computed_deltas_def Col_List_def Let_def delete_names_eq map_filter_full_keep)

lemma GenerateDeltas_elems:
  "computed_deltas env e req w gw = (res, deletes) \<Longrightarrow>
   elems (fst (GenerateDeltas env e req w gw)) = elems res \<and>
   elems (fst (snd (GenerateDeltas env e req w gw))) = elems deletes"
  by (simp add: GenerateDeltas_def len_def elems_def split: option.splits)

lemma insert_names_eq:
  "insert_names xs (E, c) = (E |\<union>| fset_of_list xs, c \<or> \<not> fset_of_list xs |\<subseteq>| E)"
  by (induction xs arbitrary: E c) auto

lemma remove_names_eq:
  "remove_names xs (E, c) = (E |-| fset_of_list xs, c \<or> fset_of_list xs |\<inter>| E \<noteq> {||})"
  by (induction xs arbitrary: E c) auto

text \<open>
  What \<^verbatim>\<open>deltaWatchedResources\<close> computes, in terms of sets: the names are the
  existing, subscribed and initial names without the unsubscribed ones and without the
  wildcard name; the change flag tells that some insertion or some deletion took effect.
\<close>

lemma deltaWatchedResources_eq:
  "deltaWatchedResources E req =
     (let S = fset_of_list (ResourceNamesSubscribe req);
          I = fset_of_list (map fst (InitialResourceVersions req));
          U = fset_of_list (ResourceNamesUnsubscribe req);
          R = (E |\<union>| S |\<union>| I) |-| U
      in (R |-| {|''*''|},
          ResourceNamesSubscribe req = [] \<or> ''*'' |\<in>| R,
          \<not> S |\<subseteq>| E \<or> \<not> I |\<subseteq>| E |\<union>| S \<or> U |\<inter>| (E |\<union>| S |\<union>| I) \<noteq> {||}))"
  by (auto simp: deltaWatchedResources_def insert_names_eq remove_names_eq Let_def)

subsection \<open>The diff of a request\<close>

text \<open>
  Claim C1. For a push request that comes from a client request (the full mode),
  \<^verbatim>\<open>GenerateDeltas\<close> with gateway \<open>gw\<close> and watched resource \<open>w\<close> returns as added
  exactly the resources of the collection whose \<open>ForGateway\<close> is unset or equals
  \<open>gw\<close>, in the order of the collection, and as removed exactly the tracked names of
  \<open>w\<close> that are not the name of an added resource, in ascending order and without
  repetition.
\<close>

theorem GenerateDeltas_full_mode:
  assumes "IsFromRequest req"
  shows "elems (fst (GenerateDeltas env e req w gw)) =
           map Resource (filter (\<lambda>d. ForGateway d = None \<or> ForGateway d = Some gw) (Col e))
       \<and> elems (fst (snd (GenerateDeltas env e req w gw))) =
           sorted_list_of_fset (ResourceNames w |-|
             fset_of_list (map Name (elems (fst (GenerateDeltas env e req w gw)))))"
proof -
  let ?added = "map Resource (filter (\<lambda>d. ForGateway d = None \<or> ForGateway d = Some gw) (Col e))"
  let ?removed = "sorted_list_of_fset (ResourceNames w |-| fset_of_list (map Name ?added))"
  have c: "computed_deltas env e req w gw = (Some ?added, Some ?removed)"
    using assms by (rule computed_deltas_full)
  have "elems (fst (GenerateDeltas env e req w gw)) = ?added"
    and "elems (fst (snd (GenerateDeltas env e req w gw))) = ?removed"
    using GenerateDeltas_elems [OF c] by (simp_all add: elems_def)
  then show ?thesis by simp
qed

text \<open>
  In a collection of one resource for every gateway, one of \<open>gw0\<close> and one of
  \<open>gw1\<close>, a session of \<open>gw0\<close> that tracks \<open>b\<close> and \<open>z\<close> is sent the first two
  resources and the removal of \<open>z\<close>.
\<close>

theorem GenerateDeltas_full_mode_witness:
  "IsFromRequest req_full
   \<and> elems (fst (GenerateDeltas env0 gen_mixed req_full wr0 gw0)) = [Resource res_a, Resource res_b]
   \<and> elems (fst (snd (GenerateDeltas env0 gen_mixed req_full wr0 gw0))) = [''z'']"
proof -
  have h: "IsFromRequest req_full" by (simp add: req_full_def)
  have "sorted_list_of_fset ({|''b'', ''z''|} |-| {|''a'', ''b''|}) = [''z'']" by code_simp
  with GenerateDeltas_full_mode [OF h, of env0 gen_mixed wr0 gw0] h show ?thesis
    by (simp add: gen_mixed_def res_a_def res_b_def res_c_def gw0_def gw1_def wr0_def
        new_WatchedResource_def)
qed

text \<open>
  The incremental mode adds the resources that its lookup finds, in the order in which
  the changed names are visited, and removes the names for which it finds none.
\<close>

lemma elems_append_slice: "elems (append_slice s x) = elems s @ [x]"
  by (simp add: append_slice_def elems_def)

lemma incremental_loop_elems:
  "elems (fst (incremental_loop c gw ks (res, dels))) =
     elems res @ map Resource (List.map_filter (lookup_scoped c gw) ks)
   \<and> elems (snd (incremental_loop c gw ks (res, dels))) =
     elems dels @ filter (\<lambda>k. lookup_scoped c gw k = None) ks"
proof (induction ks arbitrary: res dels)
  case Nil
  show ?case by (simp add: List.map_filter_simps)
next
  case (Cons k ks)
  show ?case
  proof (cases "lookup_scoped c gw k")
    case None
    with Cons.IH [of res "append_slice dels k"] show ?thesis
      by (simp add: List.map_filter_simps elems_append_slice)
  next
    case (Some v)
    with Cons.IH [of "append_slice res (Resource v)" dels] show ?thesis
      by (simp add: List.map_filter_simps elems_append_slice)
  qed
qed

lemma lookup_scoped_Some:
  assumes "lookup_scoped c gw k = Some d"
  shows "d \<in> set c \<and> ResourceName d = NamespacedName_String gw @ ''/'' @ k
       \<and> (ForGateway d = None \<or> ForGateway d = Some gw)"
proof -
  from assms have f: "find (\<lambda>d. ResourceName d = NamespacedName_String gw @ ''/'' @ k) c = Some d"
    and v: "ForGateway d = None \<or> ForGateway d = Some gw"
    by (auto simp: lookup_scoped_def Col_GetKey_def split: option.splits if_splits)
  from f have "d \<in> set c" "ResourceName d = NamespacedName_String gw @ ''/'' @ k"
    by (auto simp: find_Some_iff)
  with v show ?thesis by simp
qed

text \<open>
  A resource of the gateway that the lookup finds has the changed name; a resource
  without gateway that the lookup finds never has it.
\<close>

lemma lookup_scoped_name:
  "lookup_scoped c gw k = Some d \<Longrightarrow> ForGateway d = Some gw \<Longrightarrow> Name (Resource d) = k"
  using lookup_scoped_Some [of c gw k d] by (simp add: ResourceName_def)

lemma lookup_scoped_global:
  assumes "lookup_scoped c gw k = Some d" and "ForGateway d = None"
  shows "Name (Resource d) \<noteq> k"
proof
  assume "Name (Resource d) = k"
  moreover have "ResourceName d = NamespacedName_String gw @ ''/'' @ k"
    using assms(1) lookup_scoped_Some by blast
  ultimately have "k = NamespacedName_String gw @ ''/'' @ k"
    using assms(2) by (simp add: ResourceName_def)
  then have "length k = length (NamespacedName_String gw @ ''/'' @ k)"
    by simp
  then show False by simp
qed

text \<open>
  Claim C2. In the incremental mode every changed name should be added when a resource
  of that name exists and is visible to the gateway of the session, and removed
  otherwise. A resource of a collection registered without a gateway has no
  \<open>ForGateway\<close> and is visible to every gateway: the full mode sends it, and the scope
  test of the incremental mode lets it pass. The lookup of the incremental mode asks
  for the key \<^verbatim>\<open>gw.String() + "/" + k\<close>, though, and the collection holds such a
  resource under its bare name. For the collection of the single resource \<open>a\<close> without
  a gateway and the changed name \<open>a\<close>, the incremental mode reports \<open>a\<close> as removed
  and adds nothing, where the full mode adds \<open>a\<close>.
\<close>

theorem GenerateDeltas_incremental_global_resource:
  "GenerateDeltas env0 gen_global (push [T0 \<mapsto> {|''a''|}]) wr0 gw0 = (Some [], Some [''a''], None)
   \<and> GenerateDeltas env0 gen_global req_full wr0 gw0 = (Some [Resource res_a], Some [''b'', ''z''], None)"
proof -
  have s1: "sorted_list_of_fset {|''a''|} = [''a'']" by code_simp
  have s2: "sorted_list_of_fset {|''b'', ''z''|} = [''b'', ''z'']" by code_simp
  show ?thesis
    by (simp add: GenerateDeltas_def computed_deltas_def env0_def gen_global_def push_def
        changed_names_def wr0_def new_WatchedResource_def T0_def s1 s2 lookup_scoped_def
        Col_GetKey_def Col_List_def res_a_def ResourceName_def gw0_def NamespacedName_String_def
        append_slice_def elems_def len_def req_full_def List.map_filter_simps full_keep_def)
qed

subsection \<open>Requests of a client\<close>

text \<open>
  Claim C3. A request without error detail, for a type that the session watches, with a
  nonce that is not empty and differs from the nonce last sent for that type, gets no
  response and leaves the session as it was, its watched resource included. From
  such a request with a nonce that is not empty, \<^verbatim>\<open>shouldRespondDelta\<close> answers or
  changes the session only when the nonce equals the nonce last sent.
\<close>

theorem stale_nonce_ignored:
  assumes "ErrorDetail req = None"
    and "WatchedResources (proxy con) (ReqTypeUrl req) = Some wr"
    and "ResponseNonce req \<noteq> []"
  shows "(ResponseNonce req \<noteq> NonceSent wr \<longrightarrow>
            shouldRespondDelta env con req = Inr (False, con) \<and>
            processDeltaRequest env s con req = Inr (None, con))
       \<and> (shouldRespondDelta env con req \<noteq> Inr (False, con) \<longrightarrow>
            ResponseNonce req = NonceSent wr)"
  using assms
  by (simp add: shouldRespondDelta_def processDeltaRequest_def GetWatchedResource_def)

text \<open>The session that was sent the nonce \<open>n1\<close> receives a request with the nonce \<open>n0\<close>.\<close>

theorem stale_nonce_ignored_witness:
  "ErrorDetail (request ''n0'' [''q''] []) = None
   \<and> WatchedResources (proxy con1) (ReqTypeUrl (request ''n0'' [''q''] [])) = Some wr0
   \<and> ResponseNonce (request ''n0'' [''q''] []) \<noteq> []
   \<and> ResponseNonce (request ''n0'' [''q''] []) \<noteq> NonceSent wr0
   \<and> shouldRespondDelta env0 con1 (request ''n0'' [''q''] []) = Inr (False, con1)
   \<and> processDeltaRequest env0 server0 con1 (request ''n0'' [''q''] []) = Inr (None, con1)"
proof -
  have h1: "ErrorDetail (request ''n0'' [''q''] []) = None"
    by (simp add: request_def)
  have h2: "WatchedResources (proxy con1) (ReqTypeUrl (request ''n0'' [''q''] [])) = Some wr0"
    by (simp add: request_def con1_def)
  have h3: "ResponseNonce (request ''n0'' [''q''] []) \<noteq> []"
    by (simp add: request_def)
  have h4: "ResponseNonce (request ''n0'' [''q''] []) \<noteq> NonceSent wr0"
    by (simp add: request_def wr0_def)
  from stale_nonce_ignored [OF h1 h2 h3, of env0 server0] h1 h2 h3 h4 show ?thesis
    by simp
qed





text \<open>
  Claim C4, as the code has it. A request without error detail for a type that the
  session does not watch yet creates the watched resource, and its wildcard flag is true
  exactly when the subscribe list is empty, or the wildcard name is among the subscribed
  names or the initial resource versions and is not among the unsubscribed names.
\<close>

theorem first_request_wildcard:
  assumes "ErrorDetail req = None"
    and "WatchedResources (proxy con) (ReqTypeUrl req) = None"
  shows "\<exists>con' wr. shouldRespondDelta env con req = Inr (True, con')
           \<and> WatchedResources (proxy con') (ReqTypeUrl req) = Some wr
           \<and> Wildcard wr =
               (ResourceNamesSubscribe req = []
                \<or> ((''*'' \<in> set (ResourceNamesSubscribe req)
                     \<or> ''*'' \<in> fst ` set (InitialResourceVersions req))
                    \<and> ''*'' \<notin> set (ResourceNamesUnsubscribe req)))"
  using assms
  by (auto simp: shouldRespondDelta_def GetWatchedResource_def deltaWatchedResources_eq
      Let_def new_WatchedResource_def fset_of_list_elem)

text \<open>The first request of a session, with no names at all: the wildcard flag is set.\<close>

theorem first_request_wildcard_witness:
  "ErrorDetail (request [] [] []) = None
   \<and> WatchedResources (proxy con0) (ReqTypeUrl (request [] [] [])) = None
   \<and> (\<exists>con' wr. shouldRespondDelta env0 con0 (request [] [] []) = Inr (True, con')
          \<and> WatchedResources (proxy con') (ReqTypeUrl (request [] [] [])) = Some wr
          \<and> Wildcard wr)"
proof -
  have h1: "ErrorDetail (request [] [] []) = None" by (simp add: request_def)
  have h2: "WatchedResources (proxy con0) (ReqTypeUrl (request [] [] [])) = None"
    by (simp add: request_def con0_def)
  have h3: "ResourceNamesSubscribe (request [] [] []) = []" by (simp add: request_def)
  from first_request_wildcard [OF h1 h2, of env0] h1 h2 h3 show ?thesis
    by simp
qed

text \<open>
  Claim C4, as stated, fails for the first request that subscribes to the wildcard name
  and unsubscribes from it, the request by which a client subscribes to nothing: the
  request names \<open>*\<close> in its subscribe list and the flag of the new watched resource is
  false.
\<close>

theorem first_request_wildcard_counterexample:
  "ErrorDetail (request [] [''*''] [''*'']) = None
   \<and> WatchedResources (proxy con0) (ReqTypeUrl (request [] [''*''] [''*''])) = None
   \<and> ''*'' \<in> set (ResourceNamesSubscribe (request [] [''*''] [''*'']))
   \<and> shouldRespondDelta env0 con0 (request [] [''*''] [''*'']) =
       Inr (True, con0\<lparr>proxy := \<lparr>ID = ''proxy-1'',
              WatchedResources = [T0 \<mapsto> new_WatchedResource T0 {||} False]\<rparr>\<rparr>)
   \<and> Wildcard (new_WatchedResource T0 {||} False) = False"
  by (simp add: request_def con0_def shouldRespondDelta_def GetWatchedResource_def
      deltaWatchedResources_def env0_def T0_def new_WatchedResource_def)

text \<open>
  Claim C5. A request with an error detail should have its message recorded on the
  watched resource of its type and get no response, also when the session holds no
  watched resource for that type. In that case the function given to
  \<^verbatim>\<open>UpdateWatchedResource\<close> receives nil and assigns to its \<^verbatim>\<open>LastError\<close> field:
  the request ends in a panic, and nothing is recorded. \<^verbatim>\<open>sendDelta\<close> guards the
  same update with a test for nil.
\<close>

theorem nack_for_unwatched_type_panics:
  "ErrorDetail req_nack = Some \<lparr>Code = 3, Message = ''rejected''\<rparr>
   \<and> WatchedResources (proxy con0) (ReqTypeUrl req_nack) = None
   \<and> shouldRespondDelta env0 con0 req_nack = Inl NilPointerDereference
   \<and> processDeltaRequest env0 server0 con0 req_nack = Inl NilPointerDereference"
  by (simp add: req_nack_def request_def con0_def shouldRespondDelta_def
      processDeltaRequest_def UpdateWatchedResource_def record_error_def)




subsection \<open>Pushes\<close>

text \<open>
  Claim C7. Whenever the two lists that \<^verbatim>\<open>GenerateDeltas\<close> computes, in either mode,
  are both empty, it returns two nil slices, the signal for the empty diff, and
  \<^verbatim>\<open>pushDeltaXds\<close> returns without a send: the connection, with the responses it has
  delivered, is what it was.
\<close>

theorem empty_diff_not_sent:
  assumes "findGenerator s (TypeUrl w) = Some e"
    and "computed_deltas env e req w (node con) = (res, deletes)"
    and "len res = 0" and "len deletes = 0"
  shows "GenerateDeltas env e req w (node con) = (None, None, None)
       \<and> pushDeltaXds env s con (Some w) req = Inr (None, con)"
  using assms by (simp add: GenerateDeltas_def pushDeltaXds_def)

text \<open>A scheduled push whose changed names are all of another type than the watched one.\<close>

theorem empty_diff_not_sent_witness:
  "findGenerator server0 (TypeUrl wr0) = Some gen_mixed
   \<and> computed_deltas env0 gen_mixed (push [T1 \<mapsto> {|''a''|}]) wr0 (node con1) = (Some [], None)
   \<and> len (Some ([] :: discovery_Resource list)) = 0 \<and> len (None :: string list option) = 0
   \<and> GenerateDeltas env0 gen_mixed (push [T1 \<mapsto> {|''a''|}]) wr0 (node con1) = (None, None, None)
   \<and> pushDeltaXds env0 server0 con1 (Some wr0) (push [T1 \<mapsto> {|''a''|}]) = Inr (None, con1)"
proof -
  have e: "sorted_list_of_fset ({||} :: string fset) = []" by code_simp
  have h1: "findGenerator server0 (TypeUrl wr0) = Some gen_mixed"
    by (simp add: findGenerator_def server0_def wr0_def new_WatchedResource_def)
  have h2: "computed_deltas env0 gen_mixed (push [T1 \<mapsto> {|''a''|}]) wr0 (node con1) = (Some [], None)"
    by (simp add: computed_deltas_def push_def changed_names_def wr0_def new_WatchedResource_def
        T0_def T1_def env0_def e)
  have h3: "len (Some ([] :: discovery_Resource list)) = 0" by (simp add: len_def elems_def)
  have h4: "len (None :: string list option) = 0" by (simp add: len_def elems_def)
  from empty_diff_not_sent [OF h1 h2 h3 h4] h1 h2 h3 h4 show ?thesis by simp
qed

text \<open>
  Claim C10, as the code has it. For a response whose type URL does not start with the
  debug type: when the stream accepts it, the response is delivered and the watched
  resource of its type holds its nonce and the time of the send; when the stream
  returns an error, a deadline that was exceeded included, the proxy with all its
  watched resources is what it was and nothing is delivered.
\<close>

theorem sendDelta_records_nonce:
  assumes "\<not> prefix (DebugType env) (RespTypeUrl res)"
  shows "(Send env res = None \<longrightarrow>
            (\<exists>con' wr'. sendDelta env con res = Inr (None, con')
               \<and> sent con' = sent con @ [res]
               \<and> WatchedResources (proxy con') (RespTypeUrl res) = Some wr'
               \<and> NonceSent wr' = Nonce res \<and> LastSendTime wr' = Now env))
       \<and> (\<forall>err. Send env res = Some err \<longrightarrow>
            (\<exists>con'. sendDelta env con res = Inr (Some err, con')
               \<and> proxy con' = proxy con \<and> sent con' = sent con))"
  using assms
  by (simp add: sendDelta_def UpdateWatchedResource_def record_sent_def Let_def)

text \<open>
  A response for the type \<open>T0\<close> with the nonce \<open>n2\<close>, on a stream that accepts it and
  on a stream that runs into its deadline.
\<close>

theorem sendDelta_records_nonce_witness:
  "\<not> prefix (DebugType env0) (RespTypeUrl (response T0 ''n2''))
   \<and> Send env0 (response T0 ''n2'') = None
   \<and> Send env_timeout (response T0 ''n2'') = Some DeadlineExceeded
   \<and> (\<exists>con' wr'. sendDelta env0 con1 (response T0 ''n2'') = Inr (None, con')
         \<and> sent con' = [response T0 ''n2'']
         \<and> WatchedResources (proxy con') T0 = Some wr'
         \<and> NonceSent wr' = ''n2'' \<and> LastSendTime wr' = 7)
   \<and> (\<exists>con'. sendDelta env_timeout con1 (response T0 ''n2'') = Inr (Some DeadlineExceeded, con')
         \<and> proxy con' = proxy con1 \<and> sent con' = [])"
proof -
  have h1: "\<not> prefix (DebugType env0) (RespTypeUrl (response T0 ''n2''))"
    by (simp add: env0_def response_def T0_def)
  have h2: "\<not> prefix (DebugType env_timeout) (RespTypeUrl (response T0 ''n2''))"
    by (simp add: env_timeout_def env0_def response_def T0_def)
  have s1: "Send env0 (response T0 ''n2'') = None" by (simp add: env0_def)
  have s2: "Send env_timeout (response T0 ''n2'') = Some DeadlineExceeded"
    by (simp add: env_timeout_def)
  have v: "RespTypeUrl (response T0 ''n2'') = T0" "Nonce (response T0 ''n2'') = ''n2''"
    "Now env0 = 7" "sent con1 = []"
    by (simp_all add: response_def env0_def con1_def con0_def)
  from sendDelta_records_nonce [OF h1, of con1] sendDelta_records_nonce [OF h2, of con1]
    h1 s1 s2 v
  show ?thesis by simp
qed

text \<open>
  Claim C10, as stated, fails for a response of a debug type: the stream accepts it and
  delivers it, and the watched resource of its type keeps the nonce \<open>n1\<close> sent before
  and its time of the last send.
\<close>

theorem sendDelta_debug_type_counterexample:
  "Send env0 (response ''istio.io/debug/syncz'' ''n2'') = None
   \<and> sendDelta env0 con_debug (response ''istio.io/debug/syncz'' ''n2'') =
       Inr (None, con_debug\<lparr>sent := [response ''istio.io/debug/syncz'' ''n2'']\<rparr>)
   \<and> WatchedResources (proxy (con_debug\<lparr>sent := [response ''istio.io/debug/syncz'' ''n2'']\<rparr>))
        ''istio.io/debug/syncz'' = Some (wr0\<lparr>TypeUrl := ''istio.io/debug/syncz''\<rparr>)
   \<and> NonceSent (wr0\<lparr>TypeUrl := ''istio.io/debug/syncz''\<rparr>) = ''n1''
   \<and> LastSendTime (wr0\<lparr>TypeUrl := ''istio.io/debug/syncz''\<rparr>) = 0"
  by (simp add: env0_def response_def sendDelta_def con_debug_def con0_def wr0_def
      new_WatchedResource_def)

subsection \<open>Merged push requests\<close>

text \<open>\<^verbatim>\<open>Merge\<close> gives every type the union of the changed names of the two requests.\<close>

lemma Merge_union:
  "changed_names_of (Merge a b) t = changed_names_of a t |\<union>| changed_names_of b t"
  by (auto simp: Merge_def changed_names_of_def changed_names_def merge_configs_def
      split: option.splits)

text \<open>
  \<^verbatim>\<open>CopyMerge\<close> gives a type that the second request names the changed names of the
  second request alone.
\<close>

lemma CopyMerge_changed_names:
  "changed_names_of (CopyMerge (Some a) (Some b)) t =
     (case ConfigsUpdated b of
        None \<Rightarrow> changed_names a t
      | Some m \<Rightarrow> (case m t of None \<Rightarrow> changed_names a t | Some v \<Rightarrow> v))"
  by (auto simp: CopyMerge_def changed_names_of_def changed_names_def copy_configs_def
      split: option.splits)

text \<open>
  Claim C8. The merge of two push requests should give every type the union of their
  changed names. \<^verbatim>\<open>Merge\<close> does. \<^verbatim>\<open>CopyMerge\<close> stores the set of the second request
  over the set of the first where both name a type: of the changed names \<open>x\<close> of the
  one request and \<open>y\<close> of the other for the type \<open>T0\<close>, it keeps \<open>y\<close> alone.
\<close>

theorem CopyMerge_drops_names:
  "changed_names_of (CopyMerge (Some (push [T0 \<mapsto> {|''x''|}])) (Some (push [T0 \<mapsto> {|''y''|}]))) T0
     = {|''y''|}
   \<and> changed_names_of (Some (push [T0 \<mapsto> {|''x''|}])) T0 |\<union>|
       changed_names_of (Some (push [T0 \<mapsto> {|''y''|}])) T0 = {|''x'', ''y''|}
   \<and> changed_names_of (Merge (Some (push [T0 \<mapsto> {|''x''|}])) (Some (push [T0 \<mapsto> {|''y''|}]))) T0
     = {|''x'', ''y''|}"
  by (auto simp: CopyMerge_def Merge_def changed_names_of_def changed_names_def copy_configs_def
      merge_configs_def push_def)

end
